theory Spec2Isabelle
  imports Main "HOL-Library.Word"
begin

section \<open>Formatting helpers of the Go standard library\<close>

text \<open>
  Go's \<^verbatim>\<open>byte\<close> is an unsigned 8-bit integer. An \<^verbatim>\<open>error\<close> built by
  \<^verbatim>\<open>fmt.Errorf\<close> is its message; \<^verbatim>\<open>nil\<close> is \<open>None\<close>.
\<close>

type_synonym byte = "8 word"

type_synonym goerror = "string option"

definition quoted :: "string \<Rightarrow> string" where
  \<comment> \<open>the text \<^verbatim>\<open>'%s'\<close> of a format string, with the argument filled in\<close>
  "quoted s = [CHR 0x27] @ s @ [CHR 0x27]"

definition digit :: "nat \<Rightarrow> char" where
  "digit n = char_of (48 + n)"

definition fmt_d :: "byte \<Rightarrow> string" where
  \<comment> \<open>the verb \<^verbatim>\<open>%d\<close> on a byte: its decimal digits, no leading zero\<close>
  "fmt_d b =
     (let n = unat b in
        (if 100 \<le> n then [digit (n div 100)] else []) @
        (if 10 \<le> n then [digit (n div 10 mod 10)] else []) @
        [digit (n mod 10)])"

definition fmt_s_bool :: "bool \<Rightarrow> string" where
  \<comment> \<open>the verb \<^verbatim>\<open>%s\<close> on a bool: Go prints the bad-verb form\<close>
  "fmt_s_bool b = ''%!s(bool='' @ (if b then ''true'' else ''false'') @ '')''"

section \<open>Package exchange: exchange types\<close>

definition ExTypeDirect :: byte where "ExTypeDirect = 1"
definition ExTypeFanout :: byte where "ExTypeFanout = 2"
definition ExTypeTopic :: byte where "ExTypeTopic = 3"
definition ExTypeHeaders :: byte where "ExTypeHeaders = 4"

definition exchangeTypeIDAliasMap :: "byte \<rightharpoonup> string" where
  "exchangeTypeIDAliasMap =
     map_of [(ExTypeDirect, ''direct''), (ExTypeFanout, ''fanout''),
             (ExTypeTopic, ''topic''), (ExTypeHeaders, ''headers'')]"

definition exchangeTypeAliasIDMap :: "string \<rightharpoonup> byte" where
  "exchangeTypeAliasIDMap =
     map_of [(''direct'', ExTypeDirect), (''fanout'', ExTypeFanout),
             (''topic'', ExTypeTopic), (''headers'', ExTypeHeaders)]"

text \<open>Both functions return Go's pair (value, error); on failure the value is the zero value.\<close>

definition GetExchangeTypeAlias :: "byte \<Rightarrow> string \<times> goerror" where
  "GetExchangeTypeAlias tid =
     (case exchangeTypeIDAliasMap tid of
        Some alias \<Rightarrow> (alias, None)
      | None \<Rightarrow> ('''', Some (''undefined exchange type '' @ quoted (fmt_d tid))))"

definition GetExchangeTypeID :: "string \<Rightarrow> byte \<times> goerror" where
  "GetExchangeTypeID alias =
     (case exchangeTypeAliasIDMap alias of
        Some tid \<Rightarrow> (tid, None)
      | None \<Rightarrow> (0, Some (''undefined exchange alias '' @ quoted alias)))"

section \<open>Package binding\<close>

text \<open>
  The binding type is not among the sources; its method set is the interface
  \<^verbatim>\<open>Binding\<close> of package interfaces. The record holds the three values its getters
  return.
\<close>

record Binding =
  bQueue :: string
  bExchange :: string
  bRoutingKey :: string

definition GetQueue :: "Binding \<Rightarrow> string" where
  "GetQueue b = bQueue b"

definition GetExchange :: "Binding \<Rightarrow> string" where
  "GetExchange b = bExchange b"

definition GetRoutingKey :: "Binding \<Rightarrow> string" where
  "GetRoutingKey b = bRoutingKey b"

definition Equal :: "Binding \<Rightarrow> Binding \<Rightarrow> bool" where
  \<comment> \<open>Modelled from the spec: \<^verbatim>\<open>Binding.Equal\<close> (package binding) is missing. "Two bindings
      are equal iff all fields are equal."\<close>
  "Equal b other =
     (GetExchange b = GetExchange other \<and> GetRoutingKey b = GetRoutingKey other \<and>
      GetQueue b = GetQueue other)"

definition MatchDirect :: "Binding \<Rightarrow> string \<Rightarrow> string \<Rightarrow> bool" where
  \<comment> \<open>Modelled from the spec: \<^verbatim>\<open>Binding.MatchDirect\<close> (package binding) is missing. The
      binding's "(exchange, routingKey) equals the context's (exchange, routingKey) exactly".\<close>
  "MatchDirect b exchange routingKey =
     (GetExchange b = exchange \<and> GetRoutingKey b = routingKey)"

definition MatchFanout :: "Binding \<Rightarrow> string \<Rightarrow> bool" where
  \<comment> \<open>Modelled from the spec: \<^verbatim>\<open>Binding.MatchFanout\<close> (package binding) is missing. The
      binding's "bound exchange name equals the context's exchange name, regardless of
      routing key".\<close>
  "MatchFanout b exchange = (GetExchange b = exchange)"

fun splitWords :: "string \<Rightarrow> string list" where
  "splitWords [] = [[]]"
| "splitWords (c # cs) =
     (if c = CHR ''.'' then [] # splitWords cs
      else (case splitWords cs of [] \<Rightarrow> [[c]] | w # ws \<Rightarrow> (c # w) # ws))"

fun topicMatch :: "string list \<Rightarrow> string list \<Rightarrow> bool" where
  "topicMatch [] [] = True"
| "topicMatch [] (k # ks) = False"
| "topicMatch (p # ps) [] = (p = ''#'' \<and> topicMatch ps [])"
| "topicMatch (p # ps) (k # ks) =
     (if p = ''#'' then topicMatch ps (k # ks) \<or> topicMatch (p # ps) ks
      else if p = ''*'' then topicMatch ps ks
      else p = k \<and> topicMatch ps ks)"

definition MatchTopic :: "Binding \<Rightarrow> string \<Rightarrow> string \<Rightarrow> bool" where
  \<comment> \<open>Modelled from the spec: \<^verbatim>\<open>Binding.MatchTopic\<close> (package binding) is missing. The
      binding's "pattern matches the routing key under topic-matching rules": words split
      at the dot, a star for exactly one word, a hash for zero or more words.\<close>
  "MatchTopic b exchange routingKey =
     topicMatch (splitWords (GetRoutingKey b)) (splitWords routingKey)"

section \<open>Package amqp: what the exchange reads of a message\<close>

type_synonym Table = "(string \<times> string) list"

record Message =
  Exchange :: string
  RoutingKey :: string

section \<open>Package exchange: the exchange\<close>

text \<open>
  The struct \<^verbatim>\<open>Exchange\<close>. The mutex \<^verbatim>\<open>bindLock\<close> is not a field of the record:
  in this section each method runs from its first statement to its last with no other
  call in between. The section on concurrent calls has the lock and the single steps.
\<close>

record Exchange =
  Name :: string
  exType :: byte
  durable :: bool
  autoDelete :: bool
  internal :: bool
  system :: bool
  arguments :: "Table option"
  bindings :: "Binding list"

definition NewExchange :: "string \<Rightarrow> byte \<Rightarrow> bool \<Rightarrow> bool \<Rightarrow> bool \<Rightarrow> bool \<Rightarrow> Exchange" where
  "NewExchange name ty dur autoDel intern sys =
     \<lparr>Name = name, exType = ty, durable = dur, autoDelete = autoDel, internal = intern,
      system = sys, arguments = None, bindings = []\<rparr>"

definition IsDurable :: "Exchange \<Rightarrow> bool" where "IsDurable ex = durable ex"
definition IsSystem :: "Exchange \<Rightarrow> bool" where "IsSystem ex = system ex"
definition IsAutoDelete :: "Exchange \<Rightarrow> bool" where "IsAutoDelete ex = autoDelete ex"
definition IsInternal :: "Exchange \<Rightarrow> bool" where "IsInternal ex = internal ex"
definition GetName :: "Exchange \<Rightarrow> string" where "GetName ex = Name ex"
definition ExType :: "Exchange \<Rightarrow> byte" where "ExType ex = exType ex"
definition GetBindings :: "Exchange \<Rightarrow> Binding list" where "GetBindings ex = bindings ex"

subsection \<open>AppendBinding, RemoveBinding, RemoveQueueBindings\<close>

fun appendScan :: "Binding list \<Rightarrow> Binding \<Rightarrow> bool" where
  \<comment> \<open>the loop of \<^verbatim>\<open>AppendBinding\<close>: true when it returns early on an equal binding\<close>
  "appendScan [] newBind = False"
| "appendScan (bind # rest) newBind =
     (if Equal bind newBind then True else appendScan rest newBind)"

definition AppendBinding :: "Exchange \<Rightarrow> Binding \<Rightarrow> Exchange" where
  "AppendBinding ex newBind =
     (if appendScan (bindings ex) newBind then ex
      else ex\<lparr>bindings := bindings ex @ [newBind]\<rparr>)"

fun removeScan :: "Binding list \<Rightarrow> Binding \<Rightarrow> Binding list" where
  \<comment> \<open>the loop of \<^verbatim>\<open>RemoveBinding\<close>: the first equal binding is cut out\<close>
  "removeScan [] rmBind = []"
| "removeScan (bind # rest) rmBind =
     (if Equal bind rmBind then rest else bind # removeScan rest rmBind)"

definition RemoveBinding :: "Exchange \<Rightarrow> Binding \<Rightarrow> Exchange" where
  "RemoveBinding ex rmBind = ex\<lparr>bindings := removeScan (bindings ex) rmBind\<rparr>"

fun removeQueueScan ::
  "Binding list \<Rightarrow> string \<Rightarrow> Binding list \<Rightarrow> Binding list \<Rightarrow> Binding list \<times> Binding list" where
  \<comment> \<open>the loop of \<^verbatim>\<open>RemoveQueueBindings\<close> over (newBindings, removedBindings)\<close>
  "removeQueueScan [] queueName newBindings removedBindings = (newBindings, removedBindings)"
| "removeQueueScan (bind # rest) queueName newBindings removedBindings =
     (if GetQueue bind \<noteq> queueName
      then removeQueueScan rest queueName (newBindings @ [bind]) removedBindings
      else removeQueueScan rest queueName newBindings (removedBindings @ [bind]))"

definition RemoveQueueBindings :: "Exchange \<Rightarrow> string \<Rightarrow> Binding list \<times> Exchange" where
  \<comment> \<open>returns the removed bindings and the exchange as the call leaves it\<close>
  "RemoveQueueBindings ex queueName =
     (case removeQueueScan (bindings ex) queueName [] [] of
        (newBindings, removedBindings) \<Rightarrow> (removedBindings, ex\<lparr>bindings := newBindings\<rparr>))"

subsection \<open>GetMatchedQueues\<close>

text \<open>
  The result is Go's \<^verbatim>\<open>map[string]bool\<close>; the matched queues are its keys. The switch
  has the cases direct, fanout and topic and no default.
\<close>

fun directScan :: "Binding list \<Rightarrow> Message \<Rightarrow> (string \<rightharpoonup> bool) \<Rightarrow> (string \<rightharpoonup> bool)" where
  "directScan [] message matchedQueues = matchedQueues"
| "directScan (bind # rest) message matchedQueues =
     (if MatchDirect bind (Exchange message) (RoutingKey message)
      then matchedQueues(GetQueue bind \<mapsto> True)
      else directScan rest message matchedQueues)"

fun fanoutScan :: "Binding list \<Rightarrow> Message \<Rightarrow> (string \<rightharpoonup> bool) \<Rightarrow> (string \<rightharpoonup> bool)" where
  "fanoutScan [] message matchedQueues = matchedQueues"
| "fanoutScan (bind # rest) message matchedQueues =
     (if MatchFanout bind (Exchange message)
      then fanoutScan rest message (matchedQueues(GetQueue bind \<mapsto> True))
      else fanoutScan rest message matchedQueues)"

fun topicScan :: "Binding list \<Rightarrow> Message \<Rightarrow> (string \<rightharpoonup> bool) \<Rightarrow> (string \<rightharpoonup> bool)" where
  "topicScan [] message matchedQueues = matchedQueues"
| "topicScan (bind # rest) message matchedQueues =
     (if MatchTopic bind (Exchange message) (RoutingKey message)
      then topicScan rest message (matchedQueues(GetQueue bind \<mapsto> True))
      else topicScan rest message matchedQueues)"

definition GetMatchedQueues :: "Exchange \<Rightarrow> Message \<Rightarrow> (string \<rightharpoonup> bool)" where
  "GetMatchedQueues ex message =
     (if exType ex = ExTypeDirect then directScan (bindings ex) message Map.empty
      else if exType ex = ExTypeFanout then fanoutScan (bindings ex) message Map.empty
      else if exType ex = ExTypeTopic then topicScan (bindings ex) message Map.empty
      else Map.empty)"

subsection \<open>EqualWithErr\<close>

definition errTemplate :: "string \<Rightarrow> string \<Rightarrow> string \<Rightarrow> string \<Rightarrow> string" where
  \<comment> \<open>the format string of \<^verbatim>\<open>EqualWithErr\<close> with its four arguments filled in\<close>
  "errTemplate arg name received current =
     ''inequivalent arg '' @ quoted arg @ '' for exchange '' @ quoted name @
     '': received '' @ quoted received @ '' but current is '' @ quoted current"

definition EqualWithErr :: "Exchange \<Rightarrow> Exchange \<Rightarrow> goerror" where
  "EqualWithErr ex exB =
     (if exType ex \<noteq> ExType exB then
        (let aliasA = fst (GetExchangeTypeAlias (exType ex));
             aliasB = fst (GetExchangeTypeAlias (ExType exB))
         in Some (errTemplate ''type'' (Name ex) aliasB aliasA))
      else if durable ex \<noteq> IsDurable exB then
        Some (errTemplate ''durable'' (Name ex)
                (fmt_s_bool (IsDurable exB)) (fmt_s_bool (durable ex)))
      else if autoDelete ex \<noteq> IsAutoDelete exB then
        Some (errTemplate ''autoDelete'' (Name ex)
                (fmt_s_bool (IsAutoDelete exB)) (fmt_s_bool (autoDelete ex)))
      else if internal ex \<noteq> IsInternal exB then
        Some (errTemplate ''internal'' (Name ex)
                (fmt_s_bool (IsInternal exB)) (fmt_s_bool (internal ex)))
      else None)"

subsection \<open>Sequences of binding operations\<close>

text \<open>
  The binding list is private to the exchange: after \<^verbatim>\<open>NewExchange\<close> only the three
  methods above write it. A history of an exchange's bindings is a list of such calls.
\<close>

datatype BindingCall =
    CallAppendBinding Binding
  | CallRemoveBinding Binding
  | CallRemoveQueueBindings string

fun applyBindingCall :: "Exchange \<Rightarrow> BindingCall \<Rightarrow> Exchange" where
  "applyBindingCall ex (CallAppendBinding b) = AppendBinding ex b"
| "applyBindingCall ex (CallRemoveBinding b) = RemoveBinding ex b"
| "applyBindingCall ex (CallRemoveQueueBindings q) = snd (RemoveQueueBindings ex q)"

definition applyBindingCalls :: "Exchange \<Rightarrow> BindingCall list \<Rightarrow> Exchange" where
  "applyBindingCalls ex calls = foldl applyBindingCall ex calls"

subsection \<open>Marshal and Unmarshal\<close>

text \<open>
  Go's \<^verbatim>\<open>[]byte(s)\<close> and \<^verbatim>\<open>string(b)\<close>: a Go string is its bytes, as an Isabelle
  string is its characters.
\<close>

definition bytesOf :: "string \<Rightarrow> byte list" where
  "bytesOf s = map (\<lambda>c. of_nat (of_char c)) s"

definition stringOf :: "byte list \<Rightarrow> string" where
  "stringOf bs = map (\<lambda>b. char_of (unat b)) bs"

definition WriteOctet :: "byte list \<Rightarrow> byte \<Rightarrow> byte list" where
  \<comment> \<open>Modelled from the spec: \<^verbatim>\<open>amqp.WriteOctet\<close> is missing. The kind is written as a
      "single byte", appended to the buffer.\<close>
  "WriteOctet buf b = buf @ [b]"

definition WriteShortstr :: "byte list \<Rightarrow> string \<Rightarrow> byte list" where
  \<comment> \<open>Modelled from the spec: \<^verbatim>\<open>amqp.WriteShortstr\<close> is missing. The name is written as a
      "length-prefixed string": a short string has one length octet, then its bytes.\<close>
  "WriteShortstr buf s = WriteOctet buf (of_nat (length s)) @ bytesOf s"

definition ReadOctet :: "byte list \<Rightarrow> (byte \<times> goerror) \<times> byte list" where
  \<comment> \<open>Modelled from the spec: \<^verbatim>\<open>amqp.ReadOctet\<close> is missing. It reads the single byte at
      the reader's position; the second component is what is left to read.\<close>
  "ReadOctet rd =
     (case rd of
        [] \<Rightarrow> ((0, Some ''EOF''), [])
      | b # rest \<Rightarrow> ((b, None), rest))"

definition ReadShortstr :: "byte list \<Rightarrow> (string \<times> goerror) \<times> byte list" where
  \<comment> \<open>Modelled from the spec: \<^verbatim>\<open>amqp.ReadShortstr\<close> is missing. It reads the length octet
      and then that many bytes.\<close>
  "ReadShortstr rd =
     (case ReadOctet rd of
        ((n, Some e), rest) \<Rightarrow> (([], Some e), rest)
      | ((n, None), rest) \<Rightarrow>
          (if length rest < unat n then (([], Some ''unexpected EOF''), [])
           else ((stringOf (take (unat n) rest), None), drop (unat n) rest)))"

definition Marshal :: "Exchange \<Rightarrow> string \<Rightarrow> byte list" where
  "Marshal ex protoVersion =
     (let buf = [];
          buf = WriteShortstr buf (Name ex);
          buf = WriteOctet buf (exType ex)
      in buf)"

definition Unmarshal :: "Exchange \<Rightarrow> byte list \<Rightarrow> Exchange" where
  \<comment> \<open>the receiver after the call; both read errors are dropped, as in the source\<close>
  "Unmarshal ex bs =
     (case ReadShortstr bs of
        ((name, _), buf) \<Rightarrow>
          (case ReadOctet buf of
             ((ty, _), _) \<Rightarrow> ex\<lparr>Name := name, exType := ty, durable := True\<rparr>))"

section \<open>Package storage: the BuntDB wrapper\<close>

text \<open>
  BuntDB is a library outside the repository. Its store is a map from keys to values;
  \<^verbatim>\<open>Update\<close> runs its function in a transaction on a copy of the map and commits it, or
  rolls it back when the function returns an error or the commit cannot be written;
  \<^verbatim>\<open>View\<close> runs its function on the committed map and returns the function's error. Both
  return \<^verbatim>\<open>ErrDatabaseClosed\<close> on a closed store without running the function. Whether the
  commit can be written is an input of the model (\<open>commitOk\<close>).
\<close>

datatype DBError = ErrNotFound | ErrDatabaseClosed | ErrCommitFailed

type_synonym Tx = "string \<rightharpoonup> string"

record DB =
  dbClosed :: bool
  dbData :: "string \<rightharpoonup> string"

definition txSet :: "Tx \<Rightarrow> string \<Rightarrow> string \<Rightarrow> (string \<times> bool \<times> DBError option) \<times> Tx" where
  \<comment> \<open>\<^verbatim>\<open>tx.Set(key, value, nil)\<close>: the previous value, whether one was replaced, the error\<close>
  "txSet tx key val =
     (case tx key of
        None \<Rightarrow> (([], False, None), tx(key \<mapsto> val))
      | Some old \<Rightarrow> ((old, True, None), tx(key \<mapsto> val)))"

definition txDelete :: "Tx \<Rightarrow> string \<Rightarrow> (string \<times> DBError option) \<times> Tx" where
  "txDelete tx key =
     (case tx key of
        None \<Rightarrow> (([], Some ErrNotFound), tx)
      | Some old \<Rightarrow> ((old, None), tx(key := None)))"

definition txGet :: "Tx \<Rightarrow> string \<Rightarrow> string \<times> DBError option" where
  "txGet tx key =
     (case tx key of
        None \<Rightarrow> ([], Some ErrNotFound)
      | Some val \<Rightarrow> (val, None))"

definition dbUpdate :: "bool \<Rightarrow> DB \<Rightarrow> (Tx \<Rightarrow> DBError option \<times> Tx) \<Rightarrow> DBError option \<times> DB" where
  "dbUpdate commitOk db fn =
     (if dbClosed db then (Some ErrDatabaseClosed, db)
      else (case fn (dbData db) of
              (Some e, tx) \<Rightarrow> (Some e, db)
            | (None, tx) \<Rightarrow>
                (if commitOk then (None, db\<lparr>dbData := tx\<rparr>)
                 else (Some ErrCommitFailed, db))))"

definition dbView :: "DB \<Rightarrow> (Tx \<Rightarrow> 'v \<Rightarrow> DBError option \<times> 'v) \<Rightarrow> 'v \<Rightarrow> DBError option \<times> 'v" where
  \<comment> \<open>the function may assign variables of its caller: they are passed in and out\<close>
  "dbView db fn vars =
     (if dbClosed db then (Some ErrDatabaseClosed, vars) else fn (dbData db) vars)"

datatype OpKind = OpSet | OpDel

record Operation =
  Key :: string
  Value :: "byte list"
  Op :: OpKind

fun batchScan :: "Operation list \<Rightarrow> Tx \<Rightarrow> Tx" where
  \<comment> \<open>the loop of \<^verbatim>\<open>ProcessBatch\<close>; what \<^verbatim>\<open>tx.Set\<close> and \<^verbatim>\<open>tx.Delete\<close> return is dropped\<close>
  "batchScan [] tx = tx"
| "batchScan (op # rest) tx =
     (let tx = (if Op op = OpSet then snd (txSet tx (Key op) (stringOf (Value op))) else tx);
          tx = (if Op op = OpDel then snd (txDelete tx (Key op)) else tx)
      in batchScan rest tx)"

definition ProcessBatch :: "bool \<Rightarrow> DB \<Rightarrow> Operation list \<Rightarrow> DBError option \<times> DB" where
  "ProcessBatch commitOk storage batch =
     dbUpdate commitOk storage (\<lambda>tx. (None, batchScan batch tx))"

definition Set :: "bool \<Rightarrow> DB \<Rightarrow> string \<Rightarrow> byte list \<Rightarrow> DBError option \<times> DB" where
  "Set commitOk storage key val =
     dbUpdate commitOk storage
       (\<lambda>tx. case txSet tx key (stringOf val) of ((_, _, err), tx') \<Rightarrow> (err, tx'))"

definition Del :: "bool \<Rightarrow> DB \<Rightarrow> string \<Rightarrow> DBError option \<times> DB" where
  "Del commitOk storage key =
     dbUpdate commitOk storage
       (\<lambda>tx. case txDelete tx key of ((_, err), tx') \<Rightarrow> (err, tx'))"

definition Get :: "DB \<Rightarrow> string \<Rightarrow> byte list option \<times> DBError option" where
  \<comment> \<open>The named results \<^verbatim>\<open>value\<close> (a nil slice at first) and \<^verbatim>\<open>err\<close> (nil at first).
      The function assigns \<^verbatim>\<open>value\<close>; its own \<^verbatim>\<open>err\<close> is a new variable, and what
      \<^verbatim>\<open>View\<close> returns is dropped, so the result \<^verbatim>\<open>err\<close> is never assigned.\<close>
  "Get storage key =
     (let err = None;
          (viewErr, val) =
             dbView storage
               (\<lambda>tx val. case txGet tx key of
                             (dat, Some e) \<Rightarrow> (Some e, val)
                           | (dat, None) \<Rightarrow> (None, Some (bytesOf dat)))
               None
      in (val, err))"

definition applyOperation :: "Tx \<Rightarrow> Operation \<Rightarrow> Tx" where
  \<comment> \<open>what one operation of a batch means, in the spec's words: a Set makes the key hold
      the value, a Delete makes the key absent\<close>
  "applyOperation m op =
     (case Op op of
        OpSet \<Rightarrow> m(Key op \<mapsto> stringOf (Value op))
      | OpDel \<Rightarrow> m(Key op := None))"

section \<open>Package server: exchange.declare\<close>

datatype ErrorCode = NotImplemented | CommandInvalid | NotFound | AccessRefused | PreconditionFailed

record AmqpError =
  ReplyCode :: ErrorCode
  ReplyText :: string

definition NewChannelError :: "ErrorCode \<Rightarrow> string \<Rightarrow> AmqpError" where
  \<comment> \<open>Modelled from the spec: \<^verbatim>\<open>amqp.NewChannelError\<close> is missing. An error is a value
      returned to the caller; it carries its kind and its text. The class and method
      identifiers of the absent method type are left out.\<close>
  "NewChannelError code txt = \<lparr>ReplyCode = code, ReplyText = txt\<rparr>"

datatype Method = ExchangeDeclareOk

text \<open>
  The method \<^verbatim>\<open>amqp.ExchangeDeclare\<close> with the fields the handler reads. Its field
  \<^verbatim>\<open>Exchange\<close> is written \<open>Exchange'\<close>, since the message has a field of that name.
\<close>

record ExchangeDeclare =
  Exchange' :: string
  Type :: string
  Passive :: bool
  Durable :: bool
  AutoDelete :: bool
  Internal :: bool
  NoWait :: bool
  Arguments :: "Table option"

text \<open>
  What the handler reaches of its channel: the exchanges of the connection's virtual host
  and the methods sent to the client.
\<close>

record Channel =
  vhostExchanges :: "string \<rightharpoonup> Exchange"
  sent :: "Method list"

definition vhostGetExchange :: "Channel \<Rightarrow> string \<Rightarrow> Exchange option" where
  \<comment> \<open>Modelled from the spec: \<^verbatim>\<open>VirtualHost.GetExchange\<close> is missing. The registry "maps
      exchange name to Exchange"; \<open>None\<close> is the nil pointer.\<close>
  "vhostGetExchange channel name = vhostExchanges channel name"

definition vhostAppendExchange :: "Channel \<Rightarrow> Exchange \<Rightarrow> Channel" where
  \<comment> \<open>Modelled from the spec: \<^verbatim>\<open>VirtualHost.AppendExchange\<close> is missing. "If no exchange
      with that name exists, create and persist (if durable) and register"; the model
      registers.\<close>
  "vhostAppendExchange channel ex =
     channel\<lparr>vhostExchanges := (vhostExchanges channel)(Name ex \<mapsto> ex)\<rparr>"

definition SendMethod :: "Channel \<Rightarrow> Method \<Rightarrow> Channel" where
  "SendMethod channel m = channel\<lparr>sent := sent channel @ [m]\<rparr>"

definition New ::
  "string \<Rightarrow> byte \<Rightarrow> bool \<Rightarrow> bool \<Rightarrow> bool \<Rightarrow> bool \<Rightarrow> Table option \<Rightarrow> Exchange" where
  \<comment> \<open>the constructor as the server calls it: \<^verbatim>\<open>NewExchange\<close> with the arguments table\<close>
  "New name ty dur autoDel intern sys args =
     (NewExchange name ty dur autoDel intern sys)\<lparr>arguments := args\<rparr>"

definition HasPrefix :: "string \<Rightarrow> string \<Rightarrow> bool" where
  \<comment> \<open>\<^verbatim>\<open>strings.HasPrefix\<close>\<close>
  "HasPrefix s pre = (length pre \<le> length s \<and> take (length pre) s = pre)"

definition exchangeDeclare :: "Channel \<Rightarrow> ExchangeDeclare \<Rightarrow> AmqpError option \<times> Channel" where
  "exchangeDeclare channel method =
     (case GetExchangeTypeID (Type method) of
        (exTypeId, Some err) \<Rightarrow> (Some (NewChannelError NotImplemented err), channel)
      | (exTypeId, None) \<Rightarrow>
          if Exchange' method = [] then
            (Some (NewChannelError CommandInvalid ''exchange name is requred''), channel)
          else
            let existingExchange = vhostGetExchange channel (Exchange' method) in
            if Passive method then
              (if NoWait method then (None, channel)
               else (case existingExchange of
                       None \<Rightarrow>
                         (Some (NewChannelError NotFound
                            (''exchange '' @ quoted (Exchange' method) @ '' not found'')),
                          channel)
                     | Some _ \<Rightarrow> (None, SendMethod channel ExchangeDeclareOk)))
            else if HasPrefix (Exchange' method) ''amq.'' then
              (Some (NewChannelError AccessRefused
                 (''exchange name '' @ quoted (Exchange' method) @
                  '' contains reserved prefix '' @ quoted ''amq.*'')),
               channel)
            else
              let newExchange =
                    New (Exchange' method) exTypeId (Durable method) (AutoDelete method)
                      (Internal method) False (Arguments method)
              in (case existingExchange of
                    Some existing \<Rightarrow>
                      (case EqualWithErr existing newExchange of
                         Some err \<Rightarrow>
                           (Some (NewChannelError PreconditionFailed err), channel)
                       | None \<Rightarrow> (None, SendMethod channel ExchangeDeclareOk))
                  | None \<Rightarrow>
                      (None,
                       SendMethod (vhostAppendExchange channel newExchange)
                         ExchangeDeclareOk)))"

section \<open>The binding list under concurrent calls\<close>

text \<open>
  Two goroutines on one exchange: one runs \<^verbatim>\<open>GetMatchedQueues\<close>, the other
  \<^verbatim>\<open>RemoveBinding\<close>. What they share is the mutex \<^verbatim>\<open>bindLock\<close> and the slice
  \<^verbatim>\<open>ex.bindings\<close>: the cells of its backing array and its length. Each statement of the
  source is one step.

  \<^verbatim>\<open>RemoveBinding\<close> takes the lock first and releases it last. Its
  \<^verbatim>\<open>append(ex.bindings[:i], ex.bindings[i+1:]...)\<close> has room in the backing array, so it
  copies the cells after \<open>i\<close> one place down in that array, and the assignment then
  stores the shorter length. \<^verbatim>\<open>GetMatchedQueues\<close> has no statement on the lock; its
  \<^verbatim>\<open>range\<close> reads the slice once, then one cell in each round.
\<close>

record SharedBindings =
  bindLock :: bool
  cells :: "Binding list"
  sliceLen :: nat

datatype QueryState =
    QueryStart
  | QueryRange nat nat "string \<rightharpoonup> bool"
  | QueryDone "string \<rightharpoonup> bool"

datatype RemoveState =
    RemoveStart
  | RemoveRange nat nat
  | RemoveCopy nat
  | RemoveStore nat
  | RemoveUnlock
  | RemoveDone

fun queryStep :: "byte \<Rightarrow> Message \<Rightarrow> SharedBindings \<Rightarrow> QueryState \<Rightarrow> QueryState option" where
  "queryStep kind message sh QueryStart =
     (if kind = ExTypeDirect \<or> kind = ExTypeFanout \<or> kind = ExTypeTopic
      then Some (QueryRange (sliceLen sh) 0 Map.empty)
      else Some (QueryDone Map.empty))"
| "queryStep kind message sh (QueryRange n i matchedQueues) =
     (if i < n then
        (if i < length (cells sh) then
           (let bind = cells sh ! i in
              if kind = ExTypeDirect then
                (if MatchDirect bind (Exchange message) (RoutingKey message)
                 then Some (QueryDone (matchedQueues(GetQueue bind \<mapsto> True)))
                 else Some (QueryRange n (i + 1) matchedQueues))
              else if kind = ExTypeFanout then
                (if MatchFanout bind (Exchange message)
                 then Some (QueryRange n (i + 1) (matchedQueues(GetQueue bind \<mapsto> True)))
                 else Some (QueryRange n (i + 1) matchedQueues))
              else
                (if MatchTopic bind (Exchange message) (RoutingKey message)
                 then Some (QueryRange n (i + 1) (matchedQueues(GetQueue bind \<mapsto> True)))
                 else Some (QueryRange n (i + 1) matchedQueues)))
         else None)
      else Some (QueryDone matchedQueues))"
| "queryStep kind message sh (QueryDone matchedQueues) = None"

fun removeStep ::
  "Binding \<Rightarrow> SharedBindings \<Rightarrow> RemoveState \<Rightarrow> (SharedBindings \<times> RemoveState) option" where
  "removeStep rmBind sh RemoveStart =
     (if bindLock sh then None else Some (sh\<lparr>bindLock := True\<rparr>, RemoveRange (sliceLen sh) 0))"
| "removeStep rmBind sh (RemoveRange n i) =
     (if i < n then
        (if i < length (cells sh) then
           (if Equal (cells sh ! i) rmBind then Some (sh, RemoveCopy i)
            else Some (sh, RemoveRange n (i + 1)))
         else None)
      else Some (sh, RemoveUnlock))"
| "removeStep rmBind sh (RemoveCopy i) =
     Some (sh\<lparr>cells := take i (cells sh) @ drop (i + 1) (take (sliceLen sh) (cells sh)) @
                         drop (sliceLen sh - 1) (cells sh)\<rparr>,
           RemoveStore (sliceLen sh - 1))"
| "removeStep rmBind sh (RemoveStore n) = Some (sh\<lparr>sliceLen := n\<rparr>, RemoveUnlock)"
| "removeStep rmBind sh RemoveUnlock = Some (sh\<lparr>bindLock := False\<rparr>, RemoveDone)"
| "removeStep rmBind sh RemoveDone = None"

datatype Goroutine = Query | Remove

record Race =
  shared :: SharedBindings
  query :: QueryState
  remove :: RemoveState
  readUnderLock :: bool

definition raceStep :: "byte \<Rightarrow> Message \<Rightarrow> Binding \<Rightarrow> Race \<Rightarrow> Goroutine \<Rightarrow> Race option" where
  \<comment> \<open>one step of the goroutine the schedule names; \<open>None\<close> when it cannot move.
      \<open>readUnderLock\<close> records that the query read the slice while the lock was held.\<close>
  "raceStep kind message rmBind c g =
     (case g of
        Query \<Rightarrow>
          (case queryStep kind message (shared c) (query c) of
             None \<Rightarrow> None
           | Some q \<Rightarrow>
               Some (c\<lparr>query := q, readUnderLock := readUnderLock c \<or> bindLock (shared c)\<rparr>))
      | Remove \<Rightarrow>
          (case removeStep rmBind (shared c) (remove c) of
             None \<Rightarrow> None
           | Some (sh, r) \<Rightarrow> Some (c\<lparr>shared := sh, remove := r\<rparr>)))"

fun runRace :: "byte \<Rightarrow> Message \<Rightarrow> Binding \<Rightarrow> Goroutine list \<Rightarrow> Race \<Rightarrow> Race option" where
  "runRace kind message rmBind [] c = Some c"
| "runRace kind message rmBind (g # schedule) c =
     (case raceStep kind message rmBind c g of
        None \<Rightarrow> None
      | Some c' \<Rightarrow> runRace kind message rmBind schedule c')"

definition startRace :: "Exchange \<Rightarrow> Race" where
  \<comment> \<open>both calls are about to begin on the exchange; the lock is free\<close>
  "startRace ex =
     \<lparr>shared = \<lparr>bindLock = False, cells = bindings ex, sliceLen = length (bindings ex)\<rparr>,
      query = QueryStart, remove = RemoveStart, readUnderLock = False\<rparr>"

section \<open>Exchange types: alias and id\<close>

lemmas ExType_defs = ExTypeDirect_def ExTypeFanout_def ExTypeTopic_def ExTypeHeaders_def

lemma GetExchangeTypeID_known:
  "GetExchangeTypeID ''direct'' = (1, None)"
  "GetExchangeTypeID ''fanout'' = (2, None)"
  "GetExchangeTypeID ''topic'' = (3, None)"
  "GetExchangeTypeID ''headers'' = (4, None)"
  by (simp_all add: GetExchangeTypeID_def exchangeTypeAliasIDMap_def ExType_defs)

lemma GetExchangeTypeAlias_known:
  "GetExchangeTypeAlias 1 = (''direct'', None)"
  "GetExchangeTypeAlias 2 = (''fanout'', None)"
  "GetExchangeTypeAlias 3 = (''topic'', None)"
  "GetExchangeTypeAlias 4 = (''headers'', None)"
  by (simp_all add: GetExchangeTypeAlias_def exchangeTypeIDAliasMap_def ExType_defs)

lemma GetExchangeTypeID_unknown:
  "alias \<notin> {''direct'', ''fanout'', ''topic'', ''headers''} \<Longrightarrow>
   GetExchangeTypeID alias = (0, Some (''undefined exchange alias '' @ quoted alias))"
  by (simp add: GetExchangeTypeID_def exchangeTypeAliasIDMap_def)

lemma GetExchangeTypeAlias_unknown:
  "tid \<notin> {1, 2, 3, 4} \<Longrightarrow>
   GetExchangeTypeAlias tid = ([], Some (''undefined exchange type '' @ quoted (fmt_d tid)))"
  by (simp add: GetExchangeTypeAlias_def exchangeTypeIDAliasMap_def ExType_defs)

text \<open>
  Claim C10. The two conversions are inverse to each other on their domains. For each of
  the aliases direct, fanout, topic and headers, \<^verbatim>\<open>GetExchangeTypeID\<close> returns no error and
  \<^verbatim>\<open>GetExchangeTypeAlias\<close> of its id returns that alias with no error; for each of the ids
  1 to 4, \<^verbatim>\<open>GetExchangeTypeAlias\<close> returns no error and \<^verbatim>\<open>GetExchangeTypeID\<close> of its alias
  returns that id with no error; every other alias and every other id yields an error.
\<close>

theorem exchange_type_alias_id_inverse:
  "(\<forall>alias \<in> {''direct'', ''fanout'', ''topic'', ''headers''}.
      snd (GetExchangeTypeID alias) = None \<and>
      GetExchangeTypeAlias (fst (GetExchangeTypeID alias)) = (alias, None)) \<and>
   (\<forall>tid \<in> {1, 2, 3, 4}.
      snd (GetExchangeTypeAlias tid) = None \<and>
      GetExchangeTypeID (fst (GetExchangeTypeAlias tid)) = (tid, None)) \<and>
   (\<forall>alias. alias \<notin> {''direct'', ''fanout'', ''topic'', ''headers''} \<longrightarrow>
      snd (GetExchangeTypeID alias) \<noteq> None) \<and>
   (\<forall>tid. tid \<notin> {1, 2, 3, 4} \<longrightarrow> snd (GetExchangeTypeAlias tid) \<noteq> None)"
  by (simp add: GetExchangeTypeID_known GetExchangeTypeAlias_known
      GetExchangeTypeID_unknown GetExchangeTypeAlias_unknown)

theorem exchange_type_alias_id_inverse_witness:
  "GetExchangeTypeAlias (fst (GetExchangeTypeID ''topic'')) = (''topic'', None) \<and>
   GetExchangeTypeID (fst (GetExchangeTypeAlias 4)) = (4, None) \<and>
   snd (GetExchangeTypeID ''x-custom'') \<noteq> None \<and>
   snd (GetExchangeTypeAlias 0) \<noteq> None \<and>
   snd (GetExchangeTypeAlias 5) \<noteq> None"
proof -
  note inv = exchange_type_alias_id_inverse
  have a: "GetExchangeTypeAlias (fst (GetExchangeTypeID ''topic'')) = (''topic'', None)"
    using inv by simp
  have b: "GetExchangeTypeID (fst (GetExchangeTypeAlias 4)) = (4, None)"
    using inv by simp
  have c: "snd (GetExchangeTypeID ''x-custom'') \<noteq> None"
    using inv by simp
  have d: "snd (GetExchangeTypeAlias 0) \<noteq> None" "snd (GetExchangeTypeAlias 5) \<noteq> None"
    using inv by simp_all
  from a b c d show ?thesis by simp
qed

section \<open>Routing\<close>

lemma directScan_find:
  "directScan bs message acc =
     (case find (\<lambda>b. bExchange b = Exchange message \<and> bRoutingKey b = RoutingKey message) bs of
        None \<Rightarrow> acc
      | Some b \<Rightarrow> acc(bQueue b \<mapsto> True))"
  by (induction bs)
    (auto simp: MatchDirect_def GetExchange_def GetRoutingKey_def GetQueue_def fun_upd_def)

text \<open>
  Claim C3. On an exchange of kind direct, \<^verbatim>\<open>GetMatchedQueues\<close> returns the queue of the
  first binding, in the order of the binding list, whose exchange and routing key both
  equal the message's; no later binding adds a queue, so the result has at most one key,
  and it is empty when no binding matches.
\<close>

theorem direct_first_match:
  assumes "exType ex = ExTypeDirect"
  shows "GetMatchedQueues ex message =
           (case find (\<lambda>b. bExchange b = Exchange message \<and> bRoutingKey b = RoutingKey message)
                   (bindings ex) of
              None \<Rightarrow> Map.empty
            | Some b \<Rightarrow> [bQueue b \<mapsto> True]) \<and>
         card (dom (GetMatchedQueues ex message)) \<le> 1"
proof -
  have eq: "GetMatchedQueues ex message = directScan (bindings ex) message Map.empty"
    using assms by (simp add: GetMatchedQueues_def)
  show ?thesis
    unfolding eq directScan_find by (simp split: option.split)
qed

theorem direct_first_match_witness:
  "GetMatchedQueues
     ((NewExchange ''orders'' ExTypeDirect True False False False)
        \<lparr>bindings := [\<lparr>bQueue = ''q1'', bExchange = ''orders'', bRoutingKey = ''a''\<rparr>,
                      \<lparr>bQueue = ''q2'', bExchange = ''orders'', bRoutingKey = ''b''\<rparr>,
                      \<lparr>bQueue = ''q3'', bExchange = ''orders'', bRoutingKey = ''a''\<rparr>]\<rparr>)
     \<lparr>Exchange = ''orders'', RoutingKey = ''a''\<rparr> = [''q1'' \<mapsto> True] \<and>
   GetMatchedQueues
     ((NewExchange ''orders'' ExTypeDirect True False False False)
        \<lparr>bindings := [\<lparr>bQueue = ''q1'', bExchange = ''orders'', bRoutingKey = ''a''\<rparr>,
                      \<lparr>bQueue = ''q2'', bExchange = ''orders'', bRoutingKey = ''b''\<rparr>,
                      \<lparr>bQueue = ''q3'', bExchange = ''orders'', bRoutingKey = ''a''\<rparr>]\<rparr>)
     \<lparr>Exchange = ''orders'', RoutingKey = ''c''\<rparr> = Map.empty"
proof -
  let ?ex = "(NewExchange ''orders'' ExTypeDirect True False False False)
        \<lparr>bindings := [\<lparr>bQueue = ''q1'', bExchange = ''orders'', bRoutingKey = ''a''\<rparr>,
                      \<lparr>bQueue = ''q2'', bExchange = ''orders'', bRoutingKey = ''b''\<rparr>,
                      \<lparr>bQueue = ''q3'', bExchange = ''orders'', bRoutingKey = ''a''\<rparr>]\<rparr>"
  have ty: "exType ?ex = ExTypeDirect"
    by (simp add: NewExchange_def)
  have a: "GetMatchedQueues ?ex \<lparr>Exchange = ''orders'', RoutingKey = ''a''\<rparr> = [''q1'' \<mapsto> True]"
    using direct_first_match [OF ty, of "\<lparr>Exchange = ''orders'', RoutingKey = ''a''\<rparr>"]
    by (simp add: NewExchange_def)
  have c: "GetMatchedQueues ?ex \<lparr>Exchange = ''orders'', RoutingKey = ''c''\<rparr> = Map.empty"
    using direct_first_match [OF ty, of "\<lparr>Exchange = ''orders'', RoutingKey = ''c''\<rparr>"]
    by (simp add: NewExchange_def)
  from a c show ?thesis by simp
qed

text \<open>
  Claim C1, as amended. The switch of \<^verbatim>\<open>GetMatchedQueues\<close> has no case for the kind
  headers, and a binding has no method that matches headers: on an exchange of kind
  headers the result is empty, whatever its bindings and whatever the message.
\<close>

theorem headers_exchange_matches_nothing:
  assumes "exType ex = ExTypeHeaders"
  shows "GetMatchedQueues ex message = Map.empty"
  using assms by (simp add: GetMatchedQueues_def ExType_defs)

theorem headers_exchange_matches_nothing_witness:
  "GetMatchedQueues
     ((NewExchange ''audit'' ExTypeHeaders True False False False)
        \<lparr>bindings := [\<lparr>bQueue = ''q1'', bExchange = ''audit'', bRoutingKey = ''k''\<rparr>]\<rparr>)
     \<lparr>Exchange = ''audit'', RoutingKey = ''k''\<rparr> = Map.empty"
proof -
  have "exType ((NewExchange ''audit'' ExTypeHeaders True False False False)
        \<lparr>bindings := [\<lparr>bQueue = ''q1'', bExchange = ''audit'', bRoutingKey = ''k''\<rparr>]\<rparr>)
      = ExTypeHeaders"
    by (simp add: NewExchange_def)
  then show ?thesis by (rule headers_exchange_matches_nothing)
qed

text \<open>
  The claim as stated fails: it asks for a headers exchange and a message with a
  non-empty result. No exchange of kind headers has one; the exchange below holds a
  binding that the same message matches under each of the three kinds the switch knows.
\<close>

theorem headers_exchange_counterexample:
  "\<not> (\<exists>ex message. exType ex = ExTypeHeaders \<and> dom (GetMatchedQueues ex message) \<noteq> {}) \<and>
   dom (GetMatchedQueues
     ((NewExchange ''audit'' ExTypeHeaders True False False False)
        \<lparr>bindings := [\<lparr>bQueue = ''q1'', bExchange = ''audit'', bRoutingKey = ''k''\<rparr>]\<rparr>)
     \<lparr>Exchange = ''audit'', RoutingKey = ''k''\<rparr>) = {}"
  by (simp add: GetMatchedQueues_def ExType_defs NewExchange_def)

section \<open>The binding list\<close>

lemma Equal_iff: "Equal b c \<longleftrightarrow> b = c"
  by (auto simp: Equal_def GetExchange_def GetRoutingKey_def GetQueue_def)

lemma appendScan_iff: "appendScan bs newBind \<longleftrightarrow> (\<exists>bind \<in> set bs. Equal bind newBind)"
  by (induction bs) auto

lemma set_removeScan: "set (removeScan bs rmBind) \<subseteq> set bs"
  by (induction bs) auto

lemma distinct_removeScan: "distinct bs \<Longrightarrow> distinct (removeScan bs rmBind)"
  using set_removeScan by (induction bs) auto

lemma removeQueueScan_filter:
  "removeQueueScan bs q new removed =
     (new @ filter (\<lambda>b. GetQueue b \<noteq> q) bs, removed @ filter (\<lambda>b. GetQueue b = q) bs)"
  by (induction bs arbitrary: new removed) auto

lemma AppendBinding_present:
  "\<exists>bind \<in> set (bindings ex). Equal bind newBind \<Longrightarrow> AppendBinding ex newBind = ex"
  by (simp add: AppendBinding_def appendScan_iff)

lemma AppendBinding_twice:
  "AppendBinding (AppendBinding ex newBind) newBind = AppendBinding ex newBind"
  by (auto simp: AppendBinding_def appendScan_iff Equal_iff)

lemma distinct_AppendBinding:
  "distinct (bindings ex) \<Longrightarrow> distinct (bindings (AppendBinding ex newBind))"
  by (auto simp: AppendBinding_def appendScan_iff Equal_iff)

lemma distinct_applyBindingCall:
  "distinct (bindings ex) \<Longrightarrow> distinct (bindings (applyBindingCall ex call))"
  by (cases call)
    (simp_all add: distinct_AppendBinding RemoveBinding_def distinct_removeScan
      RemoveQueueBindings_def removeQueueScan_filter)

lemma distinct_applyBindingCalls:
  "distinct (bindings ex) \<Longrightarrow> distinct (bindings (applyBindingCalls ex calls))"
  unfolding applyBindingCalls_def
  by (induction calls arbitrary: ex) (simp_all add: distinct_applyBindingCall)

text \<open>
  Claim C8. \<^verbatim>\<open>AppendBinding\<close> of a binding that is \<^verbatim>\<open>Equal\<close> to one the exchange already
  holds returns the exchange as it was, so the binding list keeps its elements, its
  length and its order; appending the same binding a second time changes nothing; and
  after any sequence of \<^verbatim>\<open>AppendBinding\<close>, \<^verbatim>\<open>RemoveBinding\<close> and \<^verbatim>\<open>RemoveQueueBindings\<close>
  calls on a new exchange no two places of the binding list hold \<^verbatim>\<open>Equal\<close> bindings.
\<close>

theorem append_binding_no_duplicate:
  "((\<exists>bind \<in> set (bindings ex). Equal bind newBind) \<longrightarrow> AppendBinding ex newBind = ex) \<and>
   AppendBinding (AppendBinding ex newBind) newBind = AppendBinding ex newBind \<and>
   (let bs = bindings (applyBindingCalls (NewExchange name ty dur autoDel intern sys) calls)
    in \<forall>i < length bs. \<forall>j < length bs. Equal (bs ! i) (bs ! j) \<longrightarrow> i = j)"
proof -
  have "distinct (bindings (applyBindingCalls (NewExchange name ty dur autoDel intern sys) calls))"
    by (rule distinct_applyBindingCalls) (simp add: NewExchange_def)
  then show ?thesis
    by (simp add: AppendBinding_present AppendBinding_twice Equal_iff nth_eq_iff_index_eq)
qed

theorem append_binding_no_duplicate_witness:
  "(\<exists>bind \<in> set (bindings
       ((NewExchange ''logs'' ExTypeTopic True False False False)
          \<lparr>bindings := [\<lparr>bQueue = ''q1'', bExchange = ''logs'', bRoutingKey = ''a.*''\<rparr>,
                        \<lparr>bQueue = ''q2'', bExchange = ''logs'', bRoutingKey = ''b.#''\<rparr>]\<rparr>)).
      Equal bind \<lparr>bQueue = ''q2'', bExchange = ''logs'', bRoutingKey = ''b.#''\<rparr>) \<and>
   AppendBinding
     ((NewExchange ''logs'' ExTypeTopic True False False False)
        \<lparr>bindings := [\<lparr>bQueue = ''q1'', bExchange = ''logs'', bRoutingKey = ''a.*''\<rparr>,
                      \<lparr>bQueue = ''q2'', bExchange = ''logs'', bRoutingKey = ''b.#''\<rparr>]\<rparr>)
     \<lparr>bQueue = ''q2'', bExchange = ''logs'', bRoutingKey = ''b.#''\<rparr> =
   (NewExchange ''logs'' ExTypeTopic True False False False)
        \<lparr>bindings := [\<lparr>bQueue = ''q1'', bExchange = ''logs'', bRoutingKey = ''a.*''\<rparr>,
                      \<lparr>bQueue = ''q2'', bExchange = ''logs'', bRoutingKey = ''b.#''\<rparr>]\<rparr>"
proof -
  let ?b = "\<lparr>bQueue = ''q2'', bExchange = ''logs'', bRoutingKey = ''b.#''\<rparr>"
  let ?ex = "(NewExchange ''logs'' ExTypeTopic True False False False)
        \<lparr>bindings := [\<lparr>bQueue = ''q1'', bExchange = ''logs'', bRoutingKey = ''a.*''\<rparr>, ?b]\<rparr>"
  have present: "\<exists>bind \<in> set (bindings ?ex). Equal bind ?b"
    by (simp add: Equal_def GetExchange_def GetRoutingKey_def GetQueue_def)
  have "(\<exists>bind \<in> set (bindings ?ex). Equal bind ?b) \<longrightarrow> AppendBinding ?ex ?b = ?ex"
    using append_binding_no_duplicate [of ?ex ?b] by blast
  with present have "AppendBinding ?ex ?b = ?ex" by blast
  with present show ?thesis by blast
qed

section \<open>A routing query beside RemoveBinding\<close>

text \<open>
  Run alone, each goroutine of the step model computes what the sequential function
  computes: the query ends with the result of \<^verbatim>\<open>GetMatchedQueues\<close>, and the removal ends
  with the lock free and the slice holding the bindings of \<^verbatim>\<open>RemoveBinding\<close>.
\<close>

lemma query_range_alone:
  assumes "cells (shared c) = bs" and "i \<le> length bs" and "\<not> bindLock (shared c)"
    and "query c = QueryRange (length bs) i acc"
    and "kind = ExTypeDirect \<or> kind = ExTypeFanout \<or> kind = ExTypeTopic"
  shows "\<exists>k. runRace kind message rmBind (replicate k Query) c =
           Some (c\<lparr>query := QueryDone
             (if kind = ExTypeDirect then directScan (drop i bs) message acc
              else if kind = ExTypeFanout then fanoutScan (drop i bs) message acc
              else topicScan (drop i bs) message acc)\<rparr>)"
  using assms
proof (induction "length bs - i" arbitrary: i acc c)
  case 0
  then have i: "i = length bs" by simp
  have "runRace kind message rmBind (replicate 1 Query) c =
        Some (c\<lparr>query := QueryDone acc\<rparr>)"
    using 0 i by (simp add: raceStep_def)
  then show ?case using i by (intro exI [of _ 1]) simp
next
  case (Suc d)
  then have lt: "i < length bs" by simp
  have dr: "drop i bs = bs ! i # drop (Suc i) bs"
    using lt by (simp add: Cons_nth_drop_Suc)
  let ?b = "bs ! i"
  show ?case
  proof (cases "kind = ExTypeDirect \<and> MatchDirect ?b (Exchange message) (RoutingKey message)")
    case True
    have "runRace kind message rmBind (replicate 1 Query) c =
        Some (c\<lparr>query := QueryDone (acc(GetQueue ?b \<mapsto> True))\<rparr>)"
      using Suc.prems lt True by (simp add: raceStep_def)
    then show ?thesis
      using True dr by (intro exI [of _ 1]) simp
  next
    case False
    define acc' where "acc' =
      (if kind = ExTypeFanout \<and> MatchFanout ?b (Exchange message)
         \<or> kind = ExTypeTopic \<and> MatchTopic ?b (Exchange message) (RoutingKey message)
       then acc(GetQueue ?b \<mapsto> True) else acc)"
    define c' where "c' = c\<lparr>query := QueryRange (length bs) (Suc i) acc'\<rparr>"
    have step: "raceStep kind message rmBind c Query = Some c'"
      using Suc.prems lt False
      by (auto simp: raceStep_def c'_def acc'_def ExType_defs)
    have "\<exists>k. runRace kind message rmBind (replicate k Query) c' =
           Some (c'\<lparr>query := QueryDone
             (if kind = ExTypeDirect then directScan (drop (Suc i) bs) message acc'
              else if kind = ExTypeFanout then fanoutScan (drop (Suc i) bs) message acc'
              else topicScan (drop (Suc i) bs) message acc')\<rparr>)"
      using Suc.hyps(2) Suc.prems lt
      by (intro Suc.hyps(1)) (auto simp: c'_def)
    then obtain k where k: "runRace kind message rmBind (replicate k Query) c' =
           Some (c'\<lparr>query := QueryDone
             (if kind = ExTypeDirect then directScan (drop (Suc i) bs) message acc'
              else if kind = ExTypeFanout then fanoutScan (drop (Suc i) bs) message acc'
              else topicScan (drop (Suc i) bs) message acc')\<rparr>)" ..
    have "runRace kind message rmBind (replicate (Suc k) Query) c =
           Some (c\<lparr>query := QueryDone
             (if kind = ExTypeDirect then directScan (drop i bs) message acc
              else if kind = ExTypeFanout then fanoutScan (drop i bs) message acc
              else topicScan (drop i bs) message acc)\<rparr>)"
      using step k False Suc.prems(5)
      by (auto simp: dr c'_def acc'_def ExType_defs)
    then show ?thesis by blast
  qed
qed

lemma query_alone:
  "\<exists>schedule. set schedule \<subseteq> {Query} \<and>
     runRace (exType ex) message rmBind schedule (startRace ex) =
       Some ((startRace ex)\<lparr>query := QueryDone (GetMatchedQueues ex message)\<rparr>)"
proof (cases "exType ex = ExTypeDirect \<or> exType ex = ExTypeFanout \<or> exType ex = ExTypeTopic")
  case False
  then have "runRace (exType ex) message rmBind [Query] (startRace ex) =
       Some ((startRace ex)\<lparr>query := QueryDone (GetMatchedQueues ex message)\<rparr>)"
    by (simp add: raceStep_def startRace_def GetMatchedQueues_def)
  then show ?thesis by (intro exI [of _ "[Query]"]) simp
next
  case True
  define c where "c = (startRace ex)\<lparr>query := QueryRange (length (bindings ex)) 0 Map.empty\<rparr>"
  have first: "raceStep (exType ex) message rmBind (startRace ex) Query = Some c"
    using True by (simp add: raceStep_def startRace_def c_def)
  have "\<exists>k. runRace (exType ex) message rmBind (replicate k Query) c =
           Some (c\<lparr>query := QueryDone
             (if exType ex = ExTypeDirect then directScan (drop 0 (bindings ex)) message Map.empty
              else if exType ex = ExTypeFanout then fanoutScan (drop 0 (bindings ex)) message Map.empty
              else topicScan (drop 0 (bindings ex)) message Map.empty)\<rparr>)"
    using True by (intro query_range_alone) (simp_all add: c_def startRace_def)
  then obtain k where "runRace (exType ex) message rmBind (replicate k Query) c =
           Some (c\<lparr>query := QueryDone (GetMatchedQueues ex message)\<rparr>)"
    using True by (auto simp: GetMatchedQueues_def ExType_defs)
  then have "runRace (exType ex) message rmBind (Query # replicate k Query) (startRace ex) =
       Some ((startRace ex)\<lparr>query := QueryDone (GetMatchedQueues ex message)\<rparr>)"
    using first by (simp add: c_def)
  moreover have "set (Query # replicate k Query) \<subseteq> {Query}" by auto
  ultimately show ?thesis by blast
qed

lemma remove_range_alone:
  assumes "cells (shared c) = bs" and "sliceLen (shared c) = length bs"
    and "remove c = RemoveRange (length bs) i" and "i \<le> length bs"
  shows "\<exists>k sh. runRace kind message rmBind (replicate k Remove) c =
             Some (c\<lparr>shared := sh, remove := RemoveDone\<rparr>) \<and>
           \<not> bindLock sh \<and>
           take (sliceLen sh) (cells sh) = take i bs @ removeScan (drop i bs) rmBind"
  using assms
proof (induction "length bs - i" arbitrary: i c)
  case 0
  then have i: "i = length bs" by simp
  have "runRace kind message rmBind (replicate 2 Remove) c =
          Some (c\<lparr>shared := (shared c)\<lparr>bindLock := False\<rparr>, remove := RemoveDone\<rparr>)"
    using 0 i by (simp add: raceStep_def numeral_2_eq_2)
  then show ?case
    using 0 i by (intro exI [of _ 2] exI [of _ "(shared c)\<lparr>bindLock := False\<rparr>"]) simp
next
  case (Suc d)
  then have lt: "i < length bs" by simp
  have dr: "drop i bs = bs ! i # drop (Suc i) bs"
    using lt by (simp add: Cons_nth_drop_Suc)
  show ?case
  proof (cases "Equal (bs ! i) rmBind")
    case True
    define sh where "sh = (shared c)
      \<lparr>cells := take i bs @ drop (i + 1) (take (length bs) bs) @ drop (length bs - 1) bs,
       sliceLen := length bs - 1, bindLock := False\<rparr>"
    have "runRace kind message rmBind (replicate 4 Remove) c =
            Some (c\<lparr>shared := sh, remove := RemoveDone\<rparr>)"
      using Suc.prems lt True
      by (simp add: raceStep_def sh_def eval_nat_numeral)
    moreover have "take (sliceLen sh) (cells sh) = take i bs @ removeScan (drop i bs) rmBind"
      using lt True by (simp add: sh_def dr)
    moreover have "\<not> bindLock sh" by (simp add: sh_def)
    ultimately show ?thesis by blast
  next
    case False
    define c' where "c' = c\<lparr>remove := RemoveRange (length bs) (Suc i)\<rparr>"
    have step: "raceStep kind message rmBind c Remove = Some c'"
      using Suc.prems lt False by (simp add: raceStep_def c'_def)
    have "\<exists>k sh. runRace kind message rmBind (replicate k Remove) c' =
             Some (c'\<lparr>shared := sh, remove := RemoveDone\<rparr>) \<and>
           \<not> bindLock sh \<and>
           take (sliceLen sh) (cells sh) = take (Suc i) bs @ removeScan (drop (Suc i) bs) rmBind"
      using Suc.hyps(2) Suc.prems lt
      by (intro Suc.hyps(1)) (auto simp: c'_def)
    then obtain k sh where k:
      "runRace kind message rmBind (replicate k Remove) c' =
         Some (c'\<lparr>shared := sh, remove := RemoveDone\<rparr>)"
      "\<not> bindLock sh"
      "take (sliceLen sh) (cells sh) = take (Suc i) bs @ removeScan (drop (Suc i) bs) rmBind"
      by blast
    have "runRace kind message rmBind (replicate (Suc k) Remove) c =
            Some (c\<lparr>shared := sh, remove := RemoveDone\<rparr>)"
      using step k(1) by (simp add: c'_def)
    moreover have "take (sliceLen sh) (cells sh) = take i bs @ removeScan (drop i bs) rmBind"
      using k(3) lt False by (simp add: dr take_Suc_conv_app_nth)
    ultimately show ?thesis using k(2) by blast
  qed
qed

lemma remove_alone:
  "\<exists>schedule sh. set schedule \<subseteq> {Remove} \<and>
     runRace kind message rmBind schedule (startRace ex) =
       Some ((startRace ex)\<lparr>shared := sh, remove := RemoveDone\<rparr>) \<and>
     \<not> bindLock sh \<and>
     take (sliceLen sh) (cells sh) = bindings (RemoveBinding ex rmBind)"
proof -
  define c where "c = (startRace ex)
    \<lparr>shared := (shared (startRace ex))\<lparr>bindLock := True\<rparr>,
     remove := RemoveRange (length (bindings ex)) 0\<rparr>"
  have first: "raceStep kind message rmBind (startRace ex) Remove = Some c"
    by (simp add: raceStep_def startRace_def c_def)
  have "\<exists>k sh. runRace kind message rmBind (replicate k Remove) c =
             Some (c\<lparr>shared := sh, remove := RemoveDone\<rparr>) \<and>
           \<not> bindLock sh \<and>
           take (sliceLen sh) (cells sh) =
             take 0 (bindings ex) @ removeScan (drop 0 (bindings ex)) rmBind"
    by (intro remove_range_alone) (simp_all add: c_def startRace_def)
  then obtain k sh where k:
    "runRace kind message rmBind (replicate k Remove) c =
       Some (c\<lparr>shared := sh, remove := RemoveDone\<rparr>)"
    "\<not> bindLock sh"
    "take (sliceLen sh) (cells sh) = removeScan (bindings ex) rmBind"
    by auto
  have "runRace kind message rmBind (Remove # replicate k Remove) (startRace ex) =
       Some ((startRace ex)\<lparr>shared := sh, remove := RemoveDone\<rparr>)"
    using first k(1) by (simp add: c_def)
  moreover have "set (Remove # replicate k Remove) \<subseteq> {Remove}" by auto
  ultimately show ?thesis
    using k(2,3) by (intro exI [of _ "Remove # replicate k Remove"] exI [of _ sh]) (simp add: RemoveBinding_def)
qed

text \<open>
  Claim C2 fails on the code. \<^verbatim>\<open>GetMatchedQueues\<close> does not take the lock that
  \<^verbatim>\<open>AppendBinding\<close>, \<^verbatim>\<open>RemoveBinding\<close>, \<^verbatim>\<open>RemoveQueueBindings\<close> and \<^verbatim>\<open>GetBindings\<close>
  take. On a fanout exchange bound to the queues qa, qb and qc, a query that has read the
  first cell when \<^verbatim>\<open>RemoveBinding\<close> of the first binding moves the cells goes on to read
  the moved cells while the lock is held, and returns qa and qc. The query on the list
  before the removal returns all three queues, the query on the list after it returns qb
  and qc: the binding to qb is in both lists and the query misses it.
\<close>

theorem query_reads_while_remove_holds_lock:
  "runRace ExTypeFanout \<lparr>Exchange = ''e'', RoutingKey = ''k''\<rparr>
     \<lparr>bQueue = ''qa'', bExchange = ''e'', bRoutingKey = ''ka''\<rparr>
     [Query, Query, Remove, Remove, Remove, Query, Query, Query, Remove, Remove]
     (startRace ((NewExchange ''e'' ExTypeFanout False False False False)
        \<lparr>bindings := [\<lparr>bQueue = ''qa'', bExchange = ''e'', bRoutingKey = ''ka''\<rparr>,
                      \<lparr>bQueue = ''qb'', bExchange = ''e'', bRoutingKey = ''kb''\<rparr>,
                      \<lparr>bQueue = ''qc'', bExchange = ''e'', bRoutingKey = ''kc''\<rparr>]\<rparr>)) =
   Some \<lparr>shared =
           \<lparr>bindLock = False,
            cells = [\<lparr>bQueue = ''qb'', bExchange = ''e'', bRoutingKey = ''kb''\<rparr>,
                     \<lparr>bQueue = ''qc'', bExchange = ''e'', bRoutingKey = ''kc''\<rparr>,
                     \<lparr>bQueue = ''qc'', bExchange = ''e'', bRoutingKey = ''kc''\<rparr>],
            sliceLen = 2\<rparr>,
         query = QueryDone [''qa'' \<mapsto> True, ''qc'' \<mapsto> True],
         remove = RemoveDone,
         readUnderLock = True\<rparr> \<and>
   GetMatchedQueues
     ((NewExchange ''e'' ExTypeFanout False False False False)
        \<lparr>bindings := [\<lparr>bQueue = ''qa'', bExchange = ''e'', bRoutingKey = ''ka''\<rparr>,
                      \<lparr>bQueue = ''qb'', bExchange = ''e'', bRoutingKey = ''kb''\<rparr>,
                      \<lparr>bQueue = ''qc'', bExchange = ''e'', bRoutingKey = ''kc''\<rparr>]\<rparr>)
     \<lparr>Exchange = ''e'', RoutingKey = ''k''\<rparr> =
   [''qa'' \<mapsto> True, ''qb'' \<mapsto> True, ''qc'' \<mapsto> True] \<and>
   GetMatchedQueues
     (RemoveBinding
        ((NewExchange ''e'' ExTypeFanout False False False False)
           \<lparr>bindings := [\<lparr>bQueue = ''qa'', bExchange = ''e'', bRoutingKey = ''ka''\<rparr>,
                         \<lparr>bQueue = ''qb'', bExchange = ''e'', bRoutingKey = ''kb''\<rparr>,
                         \<lparr>bQueue = ''qc'', bExchange = ''e'', bRoutingKey = ''kc''\<rparr>]\<rparr>)
        \<lparr>bQueue = ''qa'', bExchange = ''e'', bRoutingKey = ''ka''\<rparr>)
     \<lparr>Exchange = ''e'', RoutingKey = ''k''\<rparr> =
   [''qb'' \<mapsto> True, ''qc'' \<mapsto> True]"
  by (simp add: startRace_def raceStep_def NewExchange_def ExType_defs MatchFanout_def
      Equal_def GetExchange_def GetRoutingKey_def GetQueue_def GetMatchedQueues_def
      RemoveBinding_def)

section \<open>The storage record of an exchange\<close>

lemma stringOf_bytesOf: "stringOf (bytesOf s) = s"
proof -
  have "char_of (unat (of_nat (of_char c) :: byte)) = c" for c
  proof -
    have "of_char c < (256::nat)" by (rule nat_of_char_less_256)
    then have "unat (of_nat (of_char c) :: byte) = of_char c"
      by (simp add: unat_of_nat)
    then show ?thesis by simp
  qed
  then show ?thesis
    by (simp add: stringOf_def bytesOf_def comp_def map_idI)
qed

lemma length_bytesOf: "length (bytesOf s) = length s"
  by (simp add: bytesOf_def)

lemma ReadShortstr_WriteShortstr:
  assumes "length s \<le> 255"
  shows "ReadShortstr (WriteShortstr [] s @ rest) = ((s, None), rest)"
proof -
  have "unat (of_nat (length s) :: byte) = length s"
    using assms by (simp add: unat_of_nat)
  then show ?thesis
    by (simp add: ReadShortstr_def WriteShortstr_def WriteOctet_def ReadOctet_def
        length_bytesOf stringOf_bytesOf)
qed

text \<open>
  Claim C7. \<^verbatim>\<open>Unmarshal\<close> sets the receiver's durable flag to true whatever it reads.
  \<^verbatim>\<open>Unmarshal\<close> of what \<^verbatim>\<open>Marshal\<close> wrote for an exchange sets the receiver's name and
  kind to that exchange's, whatever the durable flag of the exchange that was written;
  the receiver's other fields stay as they were. Here the name is a short string: its
  length fits the one length octet.
\<close>

theorem unmarshal_marshal:
  "durable (Unmarshal ex0 bs) \<and>
   (length (Name ex) \<le> 255 \<longrightarrow>
      Unmarshal ex0 (Marshal ex protoVersion) =
        ex0\<lparr>Name := Name ex, exType := exType ex, durable := True\<rparr>)"
proof -
  have d: "durable (Unmarshal ex0 bs)"
    by (simp add: Unmarshal_def split: prod.splits)
  have m: "Marshal ex protoVersion = WriteShortstr [] (Name ex) @ [exType ex]"
    by (simp add: Marshal_def WriteOctet_def)
  have "Unmarshal ex0 (Marshal ex protoVersion) =
          ex0\<lparr>Name := Name ex, exType := exType ex, durable := True\<rparr>"
    if "length (Name ex) \<le> 255"
    unfolding m Unmarshal_def ReadShortstr_WriteShortstr [OF that]
    by (simp add: ReadOctet_def)
  with d show ?thesis by simp
qed

theorem unmarshal_marshal_witness:
  "length (Name (NewExchange ''logs'' ExTypeTopic False True False False)) \<le> 255 \<and>
   Unmarshal (NewExchange [] 0 False False False False)
     (Marshal (NewExchange ''logs'' ExTypeTopic False True False False) ''amqp-rabbit'') =
   \<lparr>Name = ''logs'', exType = 3, durable = True, autoDelete = False, internal = False,
    system = False, arguments = None, bindings = []\<rparr>"
proof -
  have short: "length (Name (NewExchange ''logs'' ExTypeTopic False True False False)) \<le> 255"
    by (simp add: NewExchange_def)
  have "Unmarshal (NewExchange [] 0 False False False False)
     (Marshal (NewExchange ''logs'' ExTypeTopic False True False False) ''amqp-rabbit'') =
     (NewExchange [] 0 False False False False)
       \<lparr>Name := Name (NewExchange ''logs'' ExTypeTopic False True False False),
        exType := exType (NewExchange ''logs'' ExTypeTopic False True False False),
        durable := True\<rparr>"
    using unmarshal_marshal
      [of "NewExchange [] 0 False False False False" "[]"
          "NewExchange ''logs'' ExTypeTopic False True False False" "''amqp-rabbit''"]
      short
    by blast
  with short show ?thesis by (simp add: NewExchange_def ExType_defs)
qed

section \<open>Declaring an exchange\<close>

lemma EqualWithErr_New:
  "EqualWithErr existing (New name ty dur autoDel intern sys args) =
     (if exType existing \<noteq> ty then
        Some (errTemplate ''type'' (Name existing)
                (fst (GetExchangeTypeAlias ty)) (fst (GetExchangeTypeAlias (exType existing))))
      else if durable existing \<noteq> dur then
        Some (errTemplate ''durable'' (Name existing) (fmt_s_bool dur)
                (fmt_s_bool (durable existing)))
      else if autoDelete existing \<noteq> autoDel then
        Some (errTemplate ''autoDelete'' (Name existing) (fmt_s_bool autoDel)
                (fmt_s_bool (autoDelete existing)))
      else if internal existing \<noteq> intern then
        Some (errTemplate ''internal'' (Name existing) (fmt_s_bool intern)
                (fmt_s_bool (internal existing)))
      else None)"
  by (simp add: EqualWithErr_def New_def NewExchange_def ExType_def IsDurable_def
      IsAutoDelete_def IsInternal_def Let_def)

lemma HasPrefix_nonempty: "HasPrefix s ''amq.'' \<Longrightarrow> s \<noteq> []"
  by (auto simp: HasPrefix_def)

text \<open>
  Claim C4. A declare that is not passive, names a known type and an unreserved name, and
  finds an exchange registered under that name, compares type, durable, autoDelete and
  internal in this order. When all four agree it returns no error, sends
  \<^verbatim>\<open>ExchangeDeclareOk\<close> and leaves the registry as it was. Otherwise it returns a
  precondition-failed error and leaves the channel as it was; the text of the error names
  the first attribute that differs (the kind under the name type), the exchange, the value
  received and the current value (for the kind the two aliases, for a flag Go's \<^verbatim>\<open>%s\<close>
  rendering of the boolean). \<^verbatim>\<open>EqualWithErr\<close> returns no error exactly when the four
  attributes of the two exchanges agree.
\<close>

theorem redeclare_noop_or_conflict:
  assumes ty: "GetExchangeTypeID (Type method) = (ty, None)"
    and name: "Exchange' method \<noteq> []"
    and active: "\<not> Passive method"
    and free: "\<not> HasPrefix (Exchange' method) ''amq.''"
    and found: "vhostGetExchange channel (Exchange' method) = Some existing"
  shows "exchangeDeclare channel method =
     (if exType existing \<noteq> ty then
        (Some (NewChannelError PreconditionFailed
           (errTemplate ''type'' (Name existing)
              (fst (GetExchangeTypeAlias ty)) (fst (GetExchangeTypeAlias (exType existing))))),
         channel)
      else if durable existing \<noteq> Durable method then
        (Some (NewChannelError PreconditionFailed
           (errTemplate ''durable'' (Name existing)
              (fmt_s_bool (Durable method)) (fmt_s_bool (durable existing)))),
         channel)
      else if autoDelete existing \<noteq> AutoDelete method then
        (Some (NewChannelError PreconditionFailed
           (errTemplate ''autoDelete'' (Name existing)
              (fmt_s_bool (AutoDelete method)) (fmt_s_bool (autoDelete existing)))),
         channel)
      else if internal existing \<noteq> Internal method then
        (Some (NewChannelError PreconditionFailed
           (errTemplate ''internal'' (Name existing)
              (fmt_s_bool (Internal method)) (fmt_s_bool (internal existing)))),
         channel)
      else (None, channel\<lparr>sent := sent channel @ [ExchangeDeclareOk]\<rparr>)) \<and>
   (EqualWithErr existing other = None) =
     (exType existing = exType other \<and> durable existing = durable other \<and>
      autoDelete existing = autoDelete other \<and> internal existing = internal other)"
proof -
  have "(EqualWithErr existing other = None) =
     (exType existing = exType other \<and> durable existing = durable other \<and>
      autoDelete existing = autoDelete other \<and> internal existing = internal other)"
    by (simp add: EqualWithErr_def ExType_def IsDurable_def IsAutoDelete_def IsInternal_def
        Let_def)
  then show ?thesis
    using assms
    by (simp add: exchangeDeclare_def EqualWithErr_New SendMethod_def Let_def)
qed

theorem redeclare_noop_or_conflict_witness:
  "exchangeDeclare
     \<lparr>vhostExchanges = [''orders'' \<mapsto> NewExchange ''orders'' ExTypeDirect True False False False],
      sent = []\<rparr>
     \<lparr>Exchange' = ''orders'', Type = ''direct'', Passive = False, Durable = True,
      AutoDelete = False, Internal = False, NoWait = False, Arguments = None\<rparr> =
   (None,
    \<lparr>vhostExchanges = [''orders'' \<mapsto> NewExchange ''orders'' ExTypeDirect True False False False],
     sent = [ExchangeDeclareOk]\<rparr>) \<and>
   exchangeDeclare
     \<lparr>vhostExchanges = [''orders'' \<mapsto> NewExchange ''orders'' ExTypeDirect True False False False],
      sent = []\<rparr>
     \<lparr>Exchange' = ''orders'', Type = ''topic'', Passive = False, Durable = False,
      AutoDelete = False, Internal = False, NoWait = False, Arguments = None\<rparr> =
   (Some \<lparr>ReplyCode = PreconditionFailed,
          ReplyText = ''inequivalent arg 'type' for exchange 'orders': received 'topic' but current is ''
                      @ quoted ''direct''\<rparr>,
    \<lparr>vhostExchanges = [''orders'' \<mapsto> NewExchange ''orders'' ExTypeDirect True False False False],
     sent = []\<rparr>) \<and>
   exchangeDeclare
     \<lparr>vhostExchanges = [''orders'' \<mapsto> NewExchange ''orders'' ExTypeDirect True False False False],
      sent = []\<rparr>
     \<lparr>Exchange' = ''orders'', Type = ''direct'', Passive = False, Durable = False,
      AutoDelete = True, Internal = False, NoWait = False, Arguments = None\<rparr> =
   (Some \<lparr>ReplyCode = PreconditionFailed,
          ReplyText = ''inequivalent arg 'durable' for exchange 'orders': received '%!s(bool=false)' but current is ''
                      @ quoted ''%!s(bool=true)''\<rparr>,
    \<lparr>vhostExchanges = [''orders'' \<mapsto> NewExchange ''orders'' ExTypeDirect True False False False],
     sent = []\<rparr>)"
proof -
  let ?ch = "\<lparr>vhostExchanges = [''orders'' \<mapsto> NewExchange ''orders'' ExTypeDirect True False False False],
      sent = []\<rparr>"
  let ?same = "\<lparr>Exchange' = ''orders'', Type = ''direct'', Passive = False, Durable = True,
      AutoDelete = False, Internal = False, NoWait = False, Arguments = None\<rparr>"
  let ?kind = "\<lparr>Exchange' = ''orders'', Type = ''topic'', Passive = False, Durable = False,
      AutoDelete = False, Internal = False, NoWait = False, Arguments = None\<rparr>"
  let ?flag = "\<lparr>Exchange' = ''orders'', Type = ''direct'', Passive = False, Durable = False,
      AutoDelete = True, Internal = False, NoWait = False, Arguments = None\<rparr>"
  let ?ex = "NewExchange ''orders'' ExTypeDirect True False False False"
  have found: "vhostGetExchange ?ch ''orders'' = Some ?ex"
    by (simp add: vhostGetExchange_def)
  have free: "\<not> HasPrefix ''orders'' ''amq.''"
    by (simp add: HasPrefix_def)
  have a: "exchangeDeclare ?ch ?same = (None, ?ch\<lparr>sent := [ExchangeDeclareOk]\<rparr>)"
    using redeclare_noop_or_conflict [of ?same 1 ?ch ?ex] found free
    by (simp add: GetExchangeTypeID_known NewExchange_def ExType_defs)
  have b: "exchangeDeclare ?ch ?kind =
      (Some (NewChannelError PreconditionFailed
         (errTemplate ''type'' ''orders'' ''topic'' ''direct'')), ?ch)"
    using redeclare_noop_or_conflict [of ?kind 3 ?ch ?ex] found free
    by (simp add: GetExchangeTypeID_known GetExchangeTypeAlias_known NewExchange_def ExType_defs)
  have c: "exchangeDeclare ?ch ?flag =
      (Some (NewChannelError PreconditionFailed
         (errTemplate ''durable'' ''orders'' (fmt_s_bool False) (fmt_s_bool True))), ?ch)"
    using redeclare_noop_or_conflict [of ?flag 1 ?ch ?ex] found free
    by (simp add: GetExchangeTypeID_known NewExchange_def ExType_defs)
  show ?thesis
    unfolding a b c
    by (simp add: NewChannelError_def errTemplate_def quoted_def fmt_s_bool_def)
qed

text \<open>
  Claim C5, as amended. A declare that is not passive and names a known exchange type is
  refused with the access-refused error on the reserved prefix whenever its exchange name
  begins with \<^verbatim>\<open>amq.\<close>, whatever the registry holds and whatever its other fields are,
  and the channel stays as it was.
\<close>

theorem reserved_prefix_refused:
  assumes ty: "snd (GetExchangeTypeID (Type method)) = None"
    and active: "\<not> Passive method"
    and reserved: "HasPrefix (Exchange' method) ''amq.''"
  shows "exchangeDeclare channel method =
     (Some (NewChannelError AccessRefused
        (''exchange name '' @ quoted (Exchange' method) @
         '' contains reserved prefix '' @ quoted ''amq.*'')),
      channel)"
proof -
  obtain t where t: "GetExchangeTypeID (Type method) = (t, None)"
    using ty by (cases "GetExchangeTypeID (Type method)") simp
  show ?thesis
    using active reserved HasPrefix_nonempty [OF reserved]
    by (simp add: exchangeDeclare_def t Let_def)
qed

theorem reserved_prefix_refused_witness:
  "exchangeDeclare
     \<lparr>vhostExchanges = [''amq.direct'' \<mapsto> NewExchange ''amq.direct'' ExTypeDirect True False False True],
      sent = []\<rparr>
     \<lparr>Exchange' = ''amq.direct'', Type = ''direct'', Passive = False, Durable = True,
      AutoDelete = False, Internal = False, NoWait = False, Arguments = None\<rparr> =
   (Some \<lparr>ReplyCode = AccessRefused,
          ReplyText = ''exchange name 'amq.direct' contains reserved prefix '' @ quoted ''amq.*''\<rparr>,
    \<lparr>vhostExchanges = [''amq.direct'' \<mapsto> NewExchange ''amq.direct'' ExTypeDirect True False False True],
     sent = []\<rparr>)"
proof -
  let ?m = "\<lparr>Exchange' = ''amq.direct'', Type = ''direct'', Passive = False, Durable = True,
      AutoDelete = False, Internal = False, NoWait = False, Arguments = None\<rparr>"
  have ty: "snd (GetExchangeTypeID (Type ?m)) = None"
    by (simp add: GetExchangeTypeID_known)
  have active: "\<not> Passive ?m" by simp
  have reserved: "HasPrefix (Exchange' ?m) ''amq.''"
    by (simp add: HasPrefix_def)
  show ?thesis
    using reserved_prefix_refused [OF ty active reserved]
    by (simp add: NewChannelError_def quoted_def)
qed

text \<open>
  The claim as stated fails twice. A passive declare of a registered name with the
  reserved prefix returns no error and sends \<^verbatim>\<open>ExchangeDeclareOk\<close>: the passive branch
  comes before the test of the prefix. A declare of a name with the reserved prefix and
  an unknown type is refused as not implemented: the type is looked up first.
\<close>

theorem reserved_prefix_counterexample:
  "HasPrefix ''amq.direct'' ''amq.'' \<and>
   exchangeDeclare
     \<lparr>vhostExchanges = [''amq.direct'' \<mapsto> NewExchange ''amq.direct'' ExTypeDirect True False False True],
      sent = []\<rparr>
     \<lparr>Exchange' = ''amq.direct'', Type = ''direct'', Passive = True, Durable = False,
      AutoDelete = False, Internal = False, NoWait = False, Arguments = None\<rparr> =
   (None,
    \<lparr>vhostExchanges = [''amq.direct'' \<mapsto> NewExchange ''amq.direct'' ExTypeDirect True False False True],
     sent = [ExchangeDeclareOk]\<rparr>) \<and>
   exchangeDeclare
     \<lparr>vhostExchanges = Map.empty, sent = []\<rparr>
     \<lparr>Exchange' = ''amq.direct'', Type = ''x-custom'', Passive = False, Durable = False,
      AutoDelete = False, Internal = False, NoWait = False, Arguments = None\<rparr> =
   (Some \<lparr>ReplyCode = NotImplemented,
          ReplyText = ''undefined exchange alias '' @ quoted ''x-custom''\<rparr>,
    \<lparr>vhostExchanges = Map.empty, sent = []\<rparr>)"
  by (simp add: HasPrefix_def exchangeDeclare_def GetExchangeTypeID_known
      GetExchangeTypeID_unknown vhostGetExchange_def SendMethod_def NewChannelError_def)

section \<open>The storage wrapper\<close>

lemma batchScan_foldl: "batchScan batch tx = foldl applyOperation tx batch"
proof (induction batch arbitrary: tx)
  case Nil
  show ?case by simp
next
  case (Cons op rest)
  have "(if Op op = OpDel
         then snd (txDelete (if Op op = OpSet
                             then snd (txSet tx (Key op) (stringOf (Value op))) else tx) (Key op))
         else (if Op op = OpSet then snd (txSet tx (Key op) (stringOf (Value op))) else tx))
        = applyOperation tx op"
    by (cases "Op op") (auto simp: applyOperation_def txSet_def txDelete_def split: option.splits)
  then show ?case
    by (simp add: Cons.IH Let_def)
qed

lemma Get_eq:
  "Get storage key =
     (if dbClosed storage then None else map_option bytesOf (dbData storage key), None)"
  by (simp add: Get_def dbView_def txGet_def Let_def split: option.splits)

text \<open>
  Claim C9. \<^verbatim>\<open>ProcessBatch\<close> runs the whole batch in one transaction whose function never
  returns an error. On an open store whose commit is written it returns no error, and the
  store then holds the result of applying every operation of the batch in order, which is
  what \<^verbatim>\<open>Get\<close> reads afterwards; on a closed store, or when the commit cannot be
  written, it returns the error and the store is as it was before, with no operation of
  the batch applied.
\<close>

theorem process_batch_all_or_nothing:
  "ProcessBatch commitOk storage batch =
     (if dbClosed storage then (Some ErrDatabaseClosed, storage)
      else if commitOk then
        (None, storage\<lparr>dbData := foldl applyOperation (dbData storage) batch\<rparr>)
      else (Some ErrCommitFailed, storage)) \<and>
   (\<forall>key. fst (Get (snd (ProcessBatch commitOk storage batch)) key) =
      (if dbClosed storage then None
       else if commitOk then
         map_option bytesOf (foldl applyOperation (dbData storage) batch key)
       else map_option bytesOf (dbData storage key)))"
  by (simp add: ProcessBatch_def dbUpdate_def batchScan_foldl Get_eq)

theorem process_batch_all_or_nothing_witness:
  "ProcessBatch True \<lparr>dbClosed = False, dbData = [''q.old'' \<mapsto> ''x'']\<rparr>
     [\<lparr>Key = ''e.a'', Value = bytesOf ''1'', Op = OpSet\<rparr>,
      \<lparr>Key = ''e.b'', Value = bytesOf ''2'', Op = OpSet\<rparr>,
      \<lparr>Key = ''q.old'', Value = [], Op = OpDel\<rparr>,
      \<lparr>Key = ''e.a'', Value = bytesOf ''3'', Op = OpSet\<rparr>] =
   (None, \<lparr>dbClosed = False, dbData = [''e.a'' \<mapsto> ''3'', ''e.b'' \<mapsto> ''2'']\<rparr>) \<and>
   ProcessBatch False \<lparr>dbClosed = False, dbData = [''q.old'' \<mapsto> ''x'']\<rparr>
     [\<lparr>Key = ''e.a'', Value = bytesOf ''1'', Op = OpSet\<rparr>,
      \<lparr>Key = ''e.b'', Value = bytesOf ''2'', Op = OpSet\<rparr>,
      \<lparr>Key = ''q.old'', Value = [], Op = OpDel\<rparr>,
      \<lparr>Key = ''e.a'', Value = bytesOf ''3'', Op = OpSet\<rparr>] =
   (Some ErrCommitFailed, \<lparr>dbClosed = False, dbData = [''q.old'' \<mapsto> ''x'']\<rparr>)"
proof -
  let ?db = "\<lparr>dbClosed = False, dbData = [''q.old'' \<mapsto> ''x'']\<rparr>"
  let ?batch = "[\<lparr>Key = ''e.a'', Value = bytesOf ''1'', Op = OpSet\<rparr>,
      \<lparr>Key = ''e.b'', Value = bytesOf ''2'', Op = OpSet\<rparr>,
      \<lparr>Key = ''q.old'', Value = [], Op = OpDel\<rparr>,
      \<lparr>Key = ''e.a'', Value = bytesOf ''3'', Op = OpSet\<rparr>]"
  have m: "foldl applyOperation (dbData ?db) ?batch = [''e.a'' \<mapsto> ''3'', ''e.b'' \<mapsto> ''2'']"
    by (auto simp: applyOperation_def stringOf_bytesOf fun_eq_iff)
  have a: "ProcessBatch True ?db ?batch = (None, ?db\<lparr>dbData := foldl applyOperation (dbData ?db) ?batch\<rparr>)"
    using process_batch_all_or_nothing [of True ?db ?batch] by simp
  have b: "ProcessBatch False ?db ?batch = (Some ErrCommitFailed, ?db)"
    using process_batch_all_or_nothing [of False ?db ?batch] by simp
  show ?thesis
    unfolding a b m by simp
qed

text \<open>
  Claim C6 fails on the code. \<^verbatim>\<open>Get\<close> drops what \<^verbatim>\<open>View\<close> returns and never assigns
  its result \<^verbatim>\<open>err\<close>: for a key the store does not hold it returns a nil value with a
  nil error, and so it does on a closed store.
\<close>

theorem Get_reports_no_error:
  "Get \<lparr>dbClosed = False, dbData = Map.empty\<rparr> ''exchange.orders'' = (None, None) \<and>
   Get \<lparr>dbClosed = True, dbData = [''exchange.orders'' \<mapsto> ''x'']\<rparr> ''exchange.orders'' =
     (None, None) \<and>
   (\<forall>storage key. snd (Get storage key) = None)"
  by (simp add: Get_eq)

end
